theory Spec2Isabelle
  imports Complex_Main "HOL-Library.AList"
begin

section \<open>Python values, exceptions and containers\<close>

text \<open>
  The exceptions the modelled code can raise. \<open>LibraryError\<close> stands for any exception
  thrown inside scikit-learn, imbalanced-learn, hyperopt or one of the classifiers; its
  argument only tells different library failures apart.
\<close>

datatype exn =
    ValueError
  | KeyError
  | TypeError
  | OverflowError
  | IndexError
  | UnboundLocalError
  | AttributeError
  | LibraryError nat

definition bind_res :: "exn + 'a \<Rightarrow> ('a \<Rightarrow> exn + 'b) \<Rightarrow> exn + 'b" where
  "bind_res m f = (case m of Inl e \<Rightarrow> Inl e | Inr a \<Rightarrow> f a)"

text \<open>
  A Python/NumPy float. Finite values are idealised as reals (rounding error is not
  modelled); the two infinities and NaN are kept, because the code produces \<open>np.inf\<close>
  on purpose and NumPy division by zero yields them instead of raising.
\<close>

datatype pyfloat = Fin real | PInf | NInf | NaN

fun pf_less :: "pyfloat \<Rightarrow> pyfloat \<Rightarrow> bool" where
  "pf_less NaN _ = False"
| "pf_less _ NaN = False"
| "pf_less (Fin a) (Fin b) = (a < b)"
| "pf_less (Fin a) PInf = True"
| "pf_less NInf (Fin b) = True"
| "pf_less NInf PInf = True"
| "pf_less _ _ = False"

text \<open>Python's \<open>max(a, b)\<close> keeps \<open>a\<close> unless \<open>b > a\<close>.\<close>

definition py_max :: "pyfloat \<Rightarrow> pyfloat \<Rightarrow> pyfloat" where
  "py_max a b = (if pf_less a b then b else a)"

text \<open>
  NumPy true division of an integer count by a float: a zero divisor gives inf or nan
  (with a warning only), an infinite divisor gives zero.
\<close>

fun np_true_div :: "int \<Rightarrow> pyfloat \<Rightarrow> pyfloat" where
  "np_true_div c (Fin d) =
     (if d = 0 then (if c = 0 then NaN else if 0 < c then PInf else NInf)
      else Fin (real_of_int c / d))"
| "np_true_div c NaN = NaN"
| "np_true_div c _ = Fin 0"

text \<open>Product of an integer count and a float.\<close>

fun np_mul :: "int \<Rightarrow> pyfloat \<Rightarrow> pyfloat" where
  "np_mul c (Fin d) = Fin (real_of_int c * d)"
| "np_mul c NaN = NaN"
| "np_mul c PInf = (if c = 0 then NaN else if 0 < c then PInf else NInf)"
| "np_mul c NInf = (if c = 0 then NaN else if 0 < c then NInf else PInf)"

text \<open>\<open>round(v, 0)\<close> rounds half to even.\<close>

definition py_round :: "real \<Rightarrow> int" where
  "py_round r =
     (let f = \<lfloor>r\<rfloor>; d = r - real_of_int f
      in if d < 1 / 2 then f else if 1 / 2 < d then f + 1 else if even f then f else f + 1)"

text \<open>\<open>int(round(v, 0))\<close>: \<open>int\<close> raises on an infinity and on NaN.\<close>

fun int_round :: "pyfloat \<Rightarrow> exn + int" where
  "int_round (Fin r) = Inr (py_round r)"
| "int_round NaN = Inl ValueError"
| "int_round _ = Inl OverflowError"

text \<open>\<open>int(v)\<close> on a finite float truncates toward zero.\<close>

definition py_trunc :: "real \<Rightarrow> int" where
  "py_trunc r = (if 0 \<le> r then \<lfloor>r\<rfloor> else \<lceil>r\<rceil>)"

text \<open>Indexing an array with a non-negative index.\<close>

definition py_nth :: "'a list \<Rightarrow> nat \<Rightarrow> exn + 'a" where
  "py_nth xs i = (if i < length xs then Inr (xs ! i) else Inl IndexError)"

text \<open>Position of the first occurrence, as \<open>np.argmin\<close>/\<open>np.argmax\<close> report it.\<close>

fun first_index :: "'a \<Rightarrow> 'a list \<Rightarrow> nat" where
  "first_index v [] = 0"
| "first_index v (x # xs) = (if x = v then 0 else Suc (first_index v xs))"

definition np_argmin :: "int list \<Rightarrow> exn + nat" where
  "np_argmin xs = (if xs = [] then Inl ValueError else Inr (first_index (Min (set xs)) xs))"

definition np_argmax :: "int list \<Rightarrow> exn + nat" where
  "np_argmax xs = (if xs = [] then Inl ValueError else Inr (first_index (Max (set xs)) xs))"

text \<open>\<open>enumerate\<close>.\<close>

definition enumerate_py :: "'a list \<Rightarrow> (nat \<times> 'a) list" where
  "enumerate_py xs = zip [0..<length xs] xs"

text \<open>A \<open>for\<close> loop over a list whose body may raise: the first exception ends the loop.\<close>

fun for_each :: "('a \<Rightarrow> 's \<Rightarrow> exn + 's) \<Rightarrow> 'a list \<Rightarrow> 's \<Rightarrow> exn + 's" where
  "for_each body [] s = Inr s"
| "for_each body (x # xs) s = bind_res (body x s) (for_each body xs)"

text \<open>
  \<open>np.unique(y, return_counts=True)\<close>: the sorted distinct labels and how often each occurs.
\<close>

definition np_unique :: "int list \<Rightarrow> int list \<times> int list" where
  "np_unique ys = (let u = sort (remdups ys) in (u, map (\<lambda>v. int (count_list ys v)) u))"

section \<open>Sampling-strategy correction (\<open>get_sampl_strat_for_case\<close>)\<close>

text \<open>
  The function returns a float in the binary branch and a dictionary from class value to
  target count otherwise. A dictionary is an association list in insertion order;
  \<open>AList.update\<close> is the assignment \<open>d[k] = v\<close>.
\<close>

datatype sampl_strat = Ratio pyfloat | Targets "(int \<times> int) list"

definition under_body ::
  "pyfloat \<Rightarrow> int list \<Rightarrow> nat \<Rightarrow> nat \<times> int \<Rightarrow> (int \<times> int) list \<Rightarrow> exn + (int \<times> int) list" where
  "under_body ss counts min_cl_arg iv new_dict =
     (case iv of (i, val) \<Rightarrow>
        if i = min_cl_arg
        then bind_res (py_nth counts i) (\<lambda>c. Inr (AList.update val c new_dict))
        else bind_res (py_nth counts min_cl_arg) (\<lambda>cm.
             bind_res (int_round (np_true_div cm ss)) (\<lambda>t.
             bind_res (py_nth counts i) (\<lambda>c.
               Inr (AList.update val (min t c) new_dict)))))"

definition over_body ::
  "pyfloat \<Rightarrow> int list \<Rightarrow> nat \<Rightarrow> nat \<times> int \<Rightarrow> (int \<times> int) list \<Rightarrow> exn + (int \<times> int) list" where
  "over_body ss counts max_cl_arg iv new_dict =
     (case iv of (i, val) \<Rightarrow>
        if i = max_cl_arg
        then bind_res (py_nth counts i) (\<lambda>c. Inr (AList.update val c new_dict))
        else bind_res (py_nth counts max_cl_arg) (\<lambda>cm.
             bind_res (int_round (np_mul cm ss)) (\<lambda>t.
             bind_res (py_nth counts i) (\<lambda>c.
               Inr (AList.update val (max t c) new_dict)))))"

definition get_sampl_strat_for_case ::
  "pyfloat \<Rightarrow> int list \<times> int list \<Rightarrow> string \<Rightarrow> exn + sampl_strat" where
  "get_sampl_strat_for_case ss count_class balance_method =
     bind_res (np_argmin (snd count_class)) (\<lambda>min_cl_arg.
     bind_res (np_argmax (snd count_class)) (\<lambda>max_cl_arg.
       if 2 < length (fst count_class) then
         (if balance_method = ''RandomUnderSampler''
          then bind_res (for_each (under_body ss (snd count_class) min_cl_arg)
                           (enumerate_py (fst count_class)) [])
                 (\<lambda>new_dict. Inr (Targets new_dict))
          else bind_res (for_each (over_body ss (snd count_class) max_cl_arg)
                           (enumerate_py (fst count_class)) [])
                 (\<lambda>new_dict. Inr (Targets new_dict)))
       else Inr (Ratio (py_max (np_true_div (snd count_class ! min_cl_arg)
                                  (Fin (real_of_int (snd count_class ! max_cl_arg))))
                               ss))))"


section \<open>The external libraries\<close>

type_synonym matrix = "real list list"
type_synonym labels = "int list"

text \<open>A value stored in a parameter dictionary.\<close>

datatype pval = PFloat pyfloat | PInt int | PDict "(int \<times> int) list"

type_synonym params = "(string \<times> pval) list"

text \<open>
  An unfitted two-stage pipeline: the names of its resampler and classifier prototypes and
  the parameters set on it so far (none: the prototypes' defaults).
\<close>

record estimator =
  balancing :: string
  classification :: string
  settings :: params

datatype splitter =
    StratifiedKFold nat bool nat
  | StratifiedShuffleSplit int real nat

fun n_splits :: "splitter \<Rightarrow> nat" where
  "n_splits (StratifiedKFold n shuffle seed) = n"
| "n_splits (StratifiedShuffleSplit n test_size seed) = nat n"

datatype pred = Labels "int list" | Proba "real list list" | Column "real list"

text \<open>A hyperopt search dimension; only the sampling-ratio range is built by this code.\<close>

datatype dist = Uniform pyfloat pyfloat | OtherDist nat

type_synonym space = "(string \<times> dist) list"

text \<open>The library calls a run makes, in the order it makes them.\<close>

datatype event =
    EvSplit splitter
  | EvFmin string string
  | EvSetParams params
  | EvFit estimator matrix labels
  | EvPredict estimator matrix
  | EvPredictProba estimator matrix
  | EvAbbFit matrix labels
  | EvAbbPredict matrix
  | EvAbbPredictProba matrix

text \<open>
  Everything outside this repository's two files is a field of the environment: what a
  library call returns or raises on given arguments. \<open>'m\<close> is a fitted classifier,
  \<open>'sc\<close> a fitted scaler. A splitter yields exactly \<open>n_splits\<close> folds unless it rejects
  the data (\<open>e_split_error\<close>); \<open>e_seed k j\<close> is element \<open>j\<close> of
  \<open>random.sample(list(range(100000)), k)\<close> after \<open>random.seed(42)\<close>; \<open>e_trials\<close> is the
  sequence of points the search evaluates within its time budget; \<open>e_elapsed\<close> is the
  wall-clock duration measured around a call.
\<close>

record ('m, 'sc) env =
  e_split_error :: "splitter \<Rightarrow> matrix \<Rightarrow> labels \<Rightarrow> exn option"
  e_fold :: "splitter \<Rightarrow> matrix \<Rightarrow> labels \<Rightarrow> nat \<Rightarrow> nat list \<times> nat list"
  e_seed :: "nat \<Rightarrow> nat \<Rightarrow> nat"
  e_scaler_fit :: "matrix \<Rightarrow> exn + 'sc"
  e_scaler_transform :: "'sc \<Rightarrow> matrix \<Rightarrow> exn + matrix"
  e_params_ok :: "estimator \<Rightarrow> params \<Rightarrow> bool"
  e_fit :: "estimator \<Rightarrow> matrix \<Rightarrow> labels \<Rightarrow> exn + 'm"
  e_predict :: "'m \<Rightarrow> matrix \<Rightarrow> exn + int list"
  e_predict_proba :: "'m \<Rightarrow> matrix \<Rightarrow> exn + real list list"
  e_abb_fit :: "matrix \<Rightarrow> labels \<Rightarrow> exn + 'm"
  e_abb_predict :: "'m \<Rightarrow> matrix \<Rightarrow> exn + int list"
  e_abb_predict_proba :: "'m \<Rightarrow> matrix \<Rightarrow> exn + real list list"
  e_f1_score :: "string \<Rightarrow> labels \<Rightarrow> pred \<Rightarrow> exn + real"
  e_accuracy_score :: "labels \<Rightarrow> pred \<Rightarrow> exn + real"
  e_roc_auc_score :: "labels \<Rightarrow> pred \<Rightarrow> exn + real"
  e_log_loss :: "labels \<Rightarrow> pred \<Rightarrow> exn + real"
  e_space_dict :: "(string \<times> space) list"
  e_trials :: "space \<Rightarrow> int \<Rightarrow> matrix \<Rightarrow> labels \<Rightarrow> string \<Rightarrow> string \<Rightarrow> string \<Rightarrow> params list"
  e_elapsed :: "event \<Rightarrow> real"
  e_check_x_y :: "matrix \<Rightarrow> labels \<Rightarrow> exn option"

section \<open>Runs: a result or an exception, with the log of library calls\<close>

type_synonym 'a run = "event list \<times> (exn + 'a)"

definition done_run :: "'a \<Rightarrow> 'a run" where
  "done_run a = ([], Inr a)"

definition lift_run :: "exn + 'a \<Rightarrow> 'a run" where
  "lift_run r = ([], r)"

definition call_run :: "event \<Rightarrow> exn + 'a \<Rightarrow> 'a run" where
  "call_run ev r = ([ev], r)"

definition bind_run :: "'a run \<Rightarrow> ('a \<Rightarrow> 'b run) \<Rightarrow> 'b run" where
  "bind_run m f =
     (case snd m of Inl e \<Rightarrow> (fst m, Inl e) | Inr a \<Rightarrow> (fst m @ fst (f a), snd (f a)))"

text \<open>\<open>try: m except: h\<close> with a bare \<open>except\<close>.\<close>

definition try_except :: "'a run \<Rightarrow> 'a run \<Rightarrow> 'a run" where
  "try_except m h =
     (case snd m of Inl e \<Rightarrow> (fst m @ fst h, snd h) | Inr a \<Rightarrow> m)"

fun for_run :: "('a \<Rightarrow> 's \<Rightarrow> 's run) \<Rightarrow> 'a list \<Rightarrow> 's \<Rightarrow> 's run" where
  "for_run body [] s = done_run s"
| "for_run body (x # xs) s = bind_run (body x s) (for_run body xs)"

section \<open>Metric evaluation, scaling and pipelines\<close>

text \<open>\<open>x[index]\<close> with an index array.\<close>

definition np_take :: "'a list \<Rightarrow> nat list \<Rightarrow> exn + 'a list" where
  "np_take xs idx =
     (if list_all (\<lambda>i. i < length xs) idx then Inr (map ((!) xs) idx) else Inl IndexError)"

text \<open>\<open>d[k]\<close> on a dictionary.\<close>

definition dict_get :: "('k \<times> 'v) list \<Rightarrow> 'k \<Rightarrow> exn + 'v" where
  "dict_get d k = (case map_of d k of None \<Rightarrow> Inl KeyError | Some v \<Rightarrow> Inr v)"

text \<open>\<open>skf.split(x, y)\<close>, consumed completely by the \<open>for\<close> loop around it.\<close>

definition split_run :: "('m, 'sc) env \<Rightarrow> splitter \<Rightarrow> matrix \<Rightarrow> labels \<Rightarrow> (nat list \<times> nat list) list run" where
  "split_run env skf x y =
     call_run (EvSplit skf)
       (case e_split_error env skf x y of
          Some e \<Rightarrow> Inl e
        | None \<Rightarrow> Inr (map (e_fold env skf x y) [0..<n_splits skf]))"

text \<open>\<open>pred[:, 1]\<close>.\<close>

fun proba_column :: "pred \<Rightarrow> exn + pred" where
  "proba_column (Proba rows) =
     bind_res (for_each (\<lambda>row col. bind_res (py_nth row 1) (\<lambda>v. Inr (col @ [v]))) rows [])
       (\<lambda>col. Inr (Column col))"
| "proba_column _ = Inl IndexError"

definition calc_metric :: "('m, 'sc) env \<Rightarrow> labels \<Rightarrow> pred \<Rightarrow> string \<Rightarrow> exn + real" where
  "calc_metric env y_test pred metric =
     (if takeWhile (\<lambda>c. c \<noteq> CHR ''_'') metric = ''f1'' then
        (if metric = ''f1_macro'' then e_f1_score env ''macro'' y_test pred
         else if metric = ''f1_micro'' then e_f1_score env ''micro'' y_test pred
         else if metric = ''f1_weighted'' then e_f1_score env ''weighted'' y_test pred
         else Inl UnboundLocalError)
      else if metric = ''accuracy'' then e_accuracy_score env y_test pred
      else if metric = ''roc_auc'' then
        (if length (remdups y_test) = 2
         then bind_res (proba_column pred) (e_roc_auc_score env y_test)
         else e_roc_auc_score env y_test pred)
      else if metric = ''log_loss'' then e_log_loss env y_test pred
      else Inl UnboundLocalError)"

definition scale_data :: "('m, 'sc) env \<Rightarrow> matrix \<Rightarrow> exn + matrix \<times> 'sc" where
  "scale_data env x_train =
     bind_res (e_scaler_fit env x_train) (\<lambda>scaler.
     bind_res (e_scaler_transform env scaler x_train) (\<lambda>x_train_scaled.
       Inr (x_train_scaled, scaler)))"

definition balance_dict_keys :: "string list" where
  "balance_dict_keys = [''SMOTE'', ''RandomOverSampler'', ''ADASYN'', ''RandomUnderSampler'']"

definition classificator_dict_keys :: "string list" where
  "classificator_dict_keys = [''XGB'', ''RF'', ''LGBM'', ''catboost'']"

text \<open>
  \<open>Pipeline([('balancing', deepcopy(balance_dict[bal_alg])),
  ('classification', deepcopy(classificator_dict[alg]))])\<close>.
\<close>

definition make_pipeline :: "string \<Rightarrow> string \<Rightarrow> exn + estimator" where
  "make_pipeline bal_alg alg =
     (if bal_alg \<notin> set balance_dict_keys then Inl KeyError
      else if alg \<notin> set classificator_dict_keys then Inl KeyError
      else Inr \<lparr>balancing = bal_alg, classification = alg, settings = []\<rparr>)"

text \<open>\<open>estimator.set_params(**params)\<close>; the library rejects names it does not know.\<close>

definition set_params :: "('m, 'sc) env \<Rightarrow> estimator \<Rightarrow> params \<Rightarrow> estimator run" where
  "set_params env estimator params =
     call_run (EvSetParams params)
       (if e_params_ok env estimator params
        then Inr (estimator\<lparr>settings := AList.updates (map fst params) (map snd params) (settings estimator)\<rparr>)
        else Inl ValueError)"

section \<open>The search objective (\<open>calc_pipeline_acc\<close>)\<close>

fun float_of_pval :: "pval \<Rightarrow> exn + pyfloat" where
  "float_of_pval (PFloat f) = Inr f"
| "float_of_pval (PInt i) = Inr (Fin (real_of_int i))"
| "float_of_pval (PDict d) = Inl TypeError"

fun pval_of_strat :: "sampl_strat \<Rightarrow> pval" where
  "pval_of_strat (Ratio f) = PFloat f"
| "pval_of_strat (Targets d) = PDict d"

text \<open>\<open>int(v)\<close>.\<close>

fun py_int :: "pval \<Rightarrow> exn + int" where
  "py_int (PFloat (Fin r)) = Inr (py_trunc r)"
| "py_int (PFloat NaN) = Inl ValueError"
| "py_int (PFloat _) = Inl OverflowError"
| "py_int (PInt i) = Inr i"
| "py_int (PDict d) = Inl TypeError"

text \<open>
  The \<open>if "balancing__k_neighbors" in p: ... elif "balancing__n_neighbors" in p: ...\<close>
  statement, which occurs in \<open>calc_pipeline_acc\<close> and in \<open>get_balance_params\<close>.
\<close>

definition coerce_neighbors :: "params \<Rightarrow> exn + params" where
  "coerce_neighbors p =
     (case map_of p ''balancing__k_neighbors'' of
        Some v \<Rightarrow> bind_res (py_int v) (\<lambda>n. Inr (AList.update ''balancing__k_neighbors'' (PInt n) p))
      | None \<Rightarrow>
         (case map_of p ''balancing__n_neighbors'' of
            Some v \<Rightarrow> bind_res (py_int v) (\<lambda>n. Inr (AList.update ''balancing__n_neighbors'' (PInt n) p))
          | None \<Rightarrow> Inr p))"

text \<open>The body of \<open>if count == 0:\<close>.\<close>

definition first_fold_params :: "params \<Rightarrow> labels \<Rightarrow> string \<Rightarrow> exn + params" where
  "first_fold_params params y_train bal_alg =
     (let count_class = np_unique y_train in
      bind_res (dict_get params ''balancing__sampling_strategy'') (\<lambda>v.
      bind_res (float_of_pval v) (\<lambda>ss.
      bind_res (get_sampl_strat_for_case ss count_class bal_alg) (\<lambda>ss_corr.
        coerce_neighbors
          (AList.update ''balancing__sampling_strategy'' (pval_of_strat ss_corr) params)))))"

text \<open>The \<open>try ... except\<close> statement: the score appended to \<open>score_list\<close>.\<close>

definition fold_attempt ::
  "('m, 'sc) env \<Rightarrow> estimator \<Rightarrow> matrix \<Rightarrow> labels \<Rightarrow> 'sc \<Rightarrow> matrix \<Rightarrow> labels \<Rightarrow> string \<Rightarrow> pyfloat run" where
  "fold_attempt env estimator x_train_scaled y_train scaler x_test y_test metric =
     bind_run (call_run (EvFit estimator x_train_scaled y_train)
                 (e_fit env estimator x_train_scaled y_train)) (\<lambda>model.
     bind_run (lift_run (e_scaler_transform env scaler x_test)) (\<lambda>x_test_scaled.
       if metric = ''roc_auc'' \<or> metric = ''log_loss'' then
         bind_run (call_run (EvPredictProba estimator x_test_scaled)
                     (e_predict_proba env model x_test_scaled)) (\<lambda>pred.
         bind_run (lift_run (calc_metric env y_test (Proba pred) metric)) (\<lambda>s. done_run (Fin s)))
       else
         bind_run (call_run (EvPredict estimator x_test_scaled)
                     (e_predict env model x_test_scaled)) (\<lambda>pred.
         bind_run (lift_run (calc_metric env y_test (Labels pred) metric)) (\<lambda>s. done_run (Fin s)))))"

definition fold_score ::
  "('m, 'sc) env \<Rightarrow> estimator \<Rightarrow> matrix \<Rightarrow> labels \<Rightarrow> 'sc \<Rightarrow> matrix \<Rightarrow> labels \<Rightarrow> string \<Rightarrow> pyfloat run" where
  "fold_score env estimator x_train_scaled y_train scaler x_test y_test metric =
     try_except (fold_attempt env estimator x_train_scaled y_train scaler x_test y_test metric)
       (done_run (if metric = ''log_loss'' then PInf else Fin 0))"

text \<open>The loop state: the caller's dictionary, \<open>score_list\<close> and \<open>count\<close>.\<close>

record cpa_state =
  cpa_params :: params
  cpa_scores :: "pyfloat list"
  cpa_count :: nat

definition cpa_body ::
  "('m, 'sc) env \<Rightarrow> matrix \<Rightarrow> labels \<Rightarrow> string \<Rightarrow> string \<Rightarrow> string \<Rightarrow> nat list \<times> nat list \<Rightarrow> cpa_state \<Rightarrow> cpa_state run" where
  "cpa_body env x y bal_alg alg metric indices st =
     bind_run (lift_run (np_take x (fst indices))) (\<lambda>x_train.
     bind_run (lift_run (np_take x (snd indices))) (\<lambda>x_test.
     bind_run (lift_run (np_take y (fst indices))) (\<lambda>y_train.
     bind_run (lift_run (np_take y (snd indices))) (\<lambda>y_test.
     bind_run (lift_run (make_pipeline bal_alg alg)) (\<lambda>estimator.
     bind_run (lift_run (if cpa_count st = 0
                         then first_fold_params (cpa_params st) y_train bal_alg
                         else Inr (cpa_params st))) (\<lambda>params.
     bind_run (set_params env estimator params) (\<lambda>estimator.
     bind_run (lift_run (scale_data env x_train)) (\<lambda>scaled.
     bind_run (fold_score env estimator (fst scaled) y_train (snd scaled) x_test y_test metric) (\<lambda>s.
       done_run \<lparr>cpa_params = params, cpa_scores = cpa_scores st @ [s],
                 cpa_count = cpa_count st + 1\<rparr>)))))))))"

text \<open>Sum, mean and negation of floats with infinities.\<close>

fun pf_add :: "pyfloat \<Rightarrow> pyfloat \<Rightarrow> pyfloat" where
  "pf_add (Fin a) (Fin b) = Fin (a + b)"
| "pf_add NaN _ = NaN"
| "pf_add _ NaN = NaN"
| "pf_add PInf NInf = NaN"
| "pf_add NInf PInf = NaN"
| "pf_add PInf _ = PInf"
| "pf_add _ PInf = PInf"
| "pf_add NInf _ = NInf"
| "pf_add _ NInf = NInf"

fun pf_div_nat :: "pyfloat \<Rightarrow> nat \<Rightarrow> pyfloat" where
  "pf_div_nat (Fin a) n = Fin (a / real n)"
| "pf_div_nat v n = v"

definition np_mean_pf :: "pyfloat list \<Rightarrow> pyfloat" where
  "np_mean_pf xs = (if xs = [] then NaN else pf_div_nat (foldl pf_add (Fin 0) xs) (length xs))"

fun pf_neg :: "pyfloat \<Rightarrow> pyfloat" where
  "pf_neg (Fin a) = Fin (- a)"
| "pf_neg PInf = NInf"
| "pf_neg NInf = PInf"
| "pf_neg NaN = NaN"

text \<open>
  The function returns the score; the dictionary it was given is returned with it, as the
  caller sees it after the call.
\<close>

definition calc_pipeline_acc ::
  "('m, 'sc) env \<Rightarrow> params \<Rightarrow> matrix \<Rightarrow> labels \<Rightarrow> string \<Rightarrow> string \<Rightarrow> string \<Rightarrow> (pyfloat \<times> params) run" where
  "calc_pipeline_acc env params x y bal_alg alg metric =
     bind_run (split_run env (StratifiedKFold 5 True 42) x y) (\<lambda>folds.
     bind_run (for_run (cpa_body env x y bal_alg alg metric) folds
                 \<lparr>cpa_params = params, cpa_scores = [], cpa_count = 0\<rparr>) (\<lambda>st.
       (let score = np_mean_pf (cpa_scores st)
        in done_run (if metric \<noteq> ''log_loss'' then pf_neg score else score, cpa_params st))))"

section \<open>Hyper-parameter search (\<open>get_balance_params\<close>)\<close>

text \<open>
  \<open>fmin\<close> evaluates the objective at each trial point in turn and returns the first point
  with the least loss; an exception of the objective leaves the search. The adaptive choice
  of the points is the library's and is abstracted by the trial sequence; the point
  returned is already in the form \<open>space_eval\<close> gives it.
\<close>

definition fmin_step ::
  "(params \<Rightarrow> (pyfloat \<times> params) run) \<Rightarrow> params \<Rightarrow> (params \<times> pyfloat) option \<Rightarrow> (params \<times> pyfloat) option run" where
  "fmin_step fn point best =
     bind_run (fn point) (\<lambda>res.
       done_run (case best of
                   None \<Rightarrow> Some (point, fst res)
                 | Some b \<Rightarrow> if pf_less (fst res) (snd b) then Some (point, fst res) else Some b))"

definition fmin :: "(params \<Rightarrow> (pyfloat \<times> params) run) \<Rightarrow> params list \<Rightarrow> params run" where
  "fmin fn trials =
     bind_run (for_run (fmin_step fn) trials None) (\<lambda>best.
       lift_run (case best of None \<Rightarrow> Inl (LibraryError 0) | Some b \<Rightarrow> Inr (fst b)))"

text \<open>\<open>space_dict[bal_alg]\<close>; the empty string stands for \<open>None\<close>, which is never a key.\<close>

definition space_lookup :: "('m, 'sc) env \<Rightarrow> string \<Rightarrow> exn + space" where
  "space_lookup env bal_alg =
     (if bal_alg = [] then Inl KeyError else dict_get (e_space_dict env) bal_alg)"

definition get_balance_params ::
  "('m, 'sc) env \<Rightarrow> matrix \<Rightarrow> labels \<Rightarrow> string \<Rightarrow> string \<Rightarrow> int \<Rightarrow> string \<Rightarrow> params run" where
  "get_balance_params env x y bal_alg alg hyp_time metric =
     (let count_class = np_unique y in
      bind_run (lift_run (space_lookup env bal_alg)) (\<lambda>space_ds.
      bind_run (lift_run (np_argmin (snd count_class))) (\<lambda>min_cl_arg.
        (let min_class = np_true_div (snd count_class ! min_cl_arg)
                           (Fin (real_of_int (Max (set (snd count_class)))));
             space_ds = AList.update ''balancing__sampling_strategy''
                          (Uniform min_class (Fin 1)) space_ds
         in bind_run (call_run (EvFmin bal_alg alg) (Inr ())) (\<lambda>u.
            bind_run (fmin (\<lambda>params. calc_pipeline_acc env params x y bal_alg alg metric)
                        (e_trials env space_ds hyp_time x y bal_alg alg metric)) (\<lambda>best.
              lift_run (coerce_neighbors best)))))))"

section \<open>Cross-validation (\<open>balance_exp\<close>, \<open>abb_exp\<close>, \<open>fit_alg\<close>)\<close>

definition get_cv_type :: "int \<Rightarrow> string" where
  "get_cv_type split_num = (if split_num mod 5 = 0 then ''kfold'' else ''split'')"

record time_dict =
  train_time :: real
  predict_time :: real

text \<open>\<open>if balance_params:\<close> is false for \<open>None\<close> and for an empty dictionary.\<close>

fun truthy :: "params option \<Rightarrow> bool" where
  "truthy None = False"
| "truthy (Some p) = (p \<noteq> [])"

text \<open>The \<open>if hyperopt_time != 0: ... else: balance_params = None\<close> statement.\<close>

definition tuned_params ::
  "('m, 'sc) env \<Rightarrow> matrix \<Rightarrow> labels \<Rightarrow> string \<Rightarrow> string \<Rightarrow> int \<Rightarrow> string \<Rightarrow> params option run" where
  "tuned_params env x_train y_train bal_alg alg hyperopt_time metric =
     (if hyperopt_time \<noteq> 0 then
        bind_run (get_balance_params env x_train y_train bal_alg alg hyperopt_time metric)
          (\<lambda>balance_params.
        bind_run (lift_run (dict_get balance_params ''balancing__sampling_strategy'')) (\<lambda>v.
        bind_run (lift_run (float_of_pval v)) (\<lambda>ss.
        bind_run (lift_run (get_sampl_strat_for_case ss (np_unique y_train) bal_alg)) (\<lambda>ss_corr.
          done_run (Some (AList.update ''balancing__sampling_strategy''
                            (pval_of_strat ss_corr) balance_params))))))
      else done_run None)"

definition balance_body ::
  "('m, 'sc) env \<Rightarrow> matrix \<Rightarrow> labels \<Rightarrow> string \<Rightarrow> string \<Rightarrow> int \<Rightarrow> string \<Rightarrow> nat list \<times> nat list \<Rightarrow>
     real list \<times> time_dict list \<Rightarrow> (real list \<times> time_dict list) run" where
  "balance_body env x y bal_alg alg hyperopt_time metric indices acc =
     bind_run (lift_run (np_take x (fst indices))) (\<lambda>x_train.
     bind_run (lift_run (np_take x (snd indices))) (\<lambda>x_test.
     bind_run (lift_run (np_take y (fst indices))) (\<lambda>y_train.
     bind_run (lift_run (np_take y (snd indices))) (\<lambda>y_test.
     bind_run (tuned_params env x_train y_train bal_alg alg hyperopt_time metric) (\<lambda>balance_params.
     bind_run (lift_run (scale_data env x_train)) (\<lambda>scaled.
     bind_run (lift_run (make_pipeline bal_alg alg)) (\<lambda>estimator.
     bind_run (if truthy balance_params
               then set_params env estimator (the balance_params)
               else done_run estimator) (\<lambda>estimator.
     bind_run (call_run (EvFit estimator (fst scaled) y_train)
                 (e_fit env estimator (fst scaled) y_train)) (\<lambda>model.
     bind_run (lift_run (e_scaler_transform env (snd scaled) x_test)) (\<lambda>x_test_scaled.
       if metric = ''roc_auc'' \<or> metric = ''log_loss'' then
         bind_run (call_run (EvPredictProba estimator x_test_scaled)
                     (e_predict_proba env model x_test_scaled)) (\<lambda>pred.
         bind_run (lift_run (calc_metric env y_test (Proba pred) metric)) (\<lambda>s.
           done_run (fst acc @ [s],
                     snd acc @ [\<lparr>train_time = e_elapsed env (EvFit estimator (fst scaled) y_train),
                                 predict_time = e_elapsed env (EvPredictProba estimator x_test_scaled)\<rparr>])))
       else
         bind_run (call_run (EvPredict estimator x_test_scaled)
                     (e_predict env model x_test_scaled)) (\<lambda>pred.
         bind_run (lift_run (calc_metric env y_test (Labels pred) metric)) (\<lambda>s.
           done_run (fst acc @ [s],
                     snd acc @ [\<lparr>train_time = e_elapsed env (EvFit estimator (fst scaled) y_train),
                                 predict_time = e_elapsed env (EvPredict estimator x_test_scaled)\<rparr>])))))))))))))"

definition balance_exp ::
  "('m, 'sc) env \<Rightarrow> matrix \<Rightarrow> labels \<Rightarrow> splitter \<Rightarrow> string \<Rightarrow> string \<Rightarrow> int \<Rightarrow> string \<Rightarrow>
     (real list \<times> time_dict list) run" where
  "balance_exp env x y skf bal_alg alg hyperopt_time metric =
     bind_run (split_run env skf x y) (\<lambda>folds.
       for_run (balance_body env x y bal_alg alg hyperopt_time metric) folds ([], []))"

definition abb_body ::
  "('m, 'sc) env \<Rightarrow> matrix \<Rightarrow> labels \<Rightarrow> string \<Rightarrow> nat list \<times> nat list \<Rightarrow>
     real list \<times> time_dict list \<Rightarrow> (real list \<times> time_dict list) run" where
  "abb_body env x y metric indices acc =
     bind_run (lift_run (np_take x (fst indices))) (\<lambda>x_train.
     bind_run (lift_run (np_take x (snd indices))) (\<lambda>x_test.
     bind_run (lift_run (np_take y (fst indices))) (\<lambda>y_train.
     bind_run (lift_run (np_take y (snd indices))) (\<lambda>y_test.
     bind_run (call_run (EvAbbFit x_train y_train) (e_abb_fit env x_train y_train)) (\<lambda>model.
       if metric = ''roc_auc'' \<or> metric = ''log_loss'' then
         bind_run (call_run (EvAbbPredictProba x_test) (e_abb_predict_proba env model x_test)) (\<lambda>pred.
         bind_run (lift_run (calc_metric env y_test (Proba pred) metric)) (\<lambda>s.
           done_run (fst acc @ [s],
                     snd acc @ [\<lparr>train_time = e_elapsed env (EvAbbFit x_train y_train),
                                 predict_time = e_elapsed env (EvAbbPredictProba x_test)\<rparr>])))
       else
         bind_run (call_run (EvAbbPredict x_test) (e_abb_predict env model x_test)) (\<lambda>pred.
         bind_run (lift_run (calc_metric env y_test (Labels pred) metric)) (\<lambda>s.
           done_run (fst acc @ [s],
                     snd acc @ [\<lparr>train_time = e_elapsed env (EvAbbFit x_train y_train),
                                 predict_time = e_elapsed env (EvAbbPredict x_test)\<rparr>]))))))))"

definition abb_exp ::
  "('m, 'sc) env \<Rightarrow> matrix \<Rightarrow> labels \<Rightarrow> splitter \<Rightarrow> string \<Rightarrow> (real list \<times> time_dict list) run" where
  "abb_exp env x y skf metric =
     bind_run (split_run env skf x y) (\<lambda>folds.
       for_run (abb_body env x y metric) folds ([], []))"

text \<open>
  \<open>random.seed(42); random.sample(list(range(100000)), k)\<close>: a sample larger than the
  population, or of negative size, is a \<open>ValueError\<close>.
\<close>

definition random_sample :: "('m, 'sc) env \<Rightarrow> int \<Rightarrow> exn + nat list" where
  "random_sample env k =
     (if k < 0 \<or> 100000 < k then Inl ValueError
      else Inr (map (e_seed env (nat k)) [0..<nat k]))"

text \<open>The \<open>if alg == "AutoBalanceBoost": ... else: ...\<close> statement of both branches.\<close>

definition sub_exp ::
  "('m, 'sc) env \<Rightarrow> matrix \<Rightarrow> labels \<Rightarrow> splitter \<Rightarrow> string \<Rightarrow> string \<Rightarrow> int \<Rightarrow> string \<Rightarrow>
     (real list \<times> time_dict list) run" where
  "sub_exp env x y skf bal_alg alg hyperopt_time metric =
     (if alg = ''AutoBalanceBoost'' then abb_exp env x y skf metric
      else balance_exp env x y skf bal_alg alg hyperopt_time metric)"

definition extend_lists ::
  "real list \<times> time_dict list \<Rightarrow> real list \<times> time_dict list \<Rightarrow> real list \<times> time_dict list" where
  "extend_lists acc sub = (fst acc @ fst sub, snd acc @ snd sub)"

definition fit_alg ::
  "('m, 'sc) env \<Rightarrow> string \<Rightarrow> matrix \<Rightarrow> labels \<Rightarrow> string \<Rightarrow> string \<Rightarrow> int \<Rightarrow> int \<Rightarrow> string \<Rightarrow>
     (real list \<times> time_dict list) run" where
  "fit_alg env cv_type x y bal_alg alg hyperopt_time split_num metric =
     (if cv_type = ''split'' then
        bind_run (sub_exp env x y (StratifiedShuffleSplit split_num (1 / 5) 42)
                    bal_alg alg hyperopt_time metric) (\<lambda>sub.
          done_run (extend_lists ([], []) sub))
      else
        bind_run (lift_run (random_sample env (split_num div 5))) (\<lambda>seed_val.
          for_run (\<lambda>seed acc.
                     bind_run (sub_exp env x y (StratifiedKFold 5 True seed)
                                 bal_alg alg hyperopt_time metric) (\<lambda>sub.
                       done_run (extend_lists acc sub)))
            seed_val ([], [])))"

section \<open>Refit of the winner (\<open>fit_res_model\<close>)\<close>

text \<open>\<open>s.split(c)\<close>.\<close>

fun split_on :: "char \<Rightarrow> string \<Rightarrow> string list" where
  "split_on c [] = [[]]"
| "split_on c (x # xs) =
     (if x = c then [] # split_on c xs
      else (case split_on c xs of w # ws \<Rightarrow> (x # w) # ws | [] \<Rightarrow> [[x]]))"

definition fit_res_model ::
  "('m, 'sc) env \<Rightarrow> string \<Rightarrow> matrix \<Rightarrow> labels \<Rightarrow> int \<Rightarrow> string \<Rightarrow> ('m \<times> 'sc option) run" where
  "fit_res_model env option_label x y hyp_time metric =
     (if option_label = ''AutoBalanceBoost'' then
        bind_run (call_run (EvAbbFit x y) (e_abb_fit env x y)) (\<lambda>model. done_run (model, None))
      else
        (let ol = split_on CHR ''+'' option_label in
         bind_run (lift_run (py_nth ol 0)) (\<lambda>bal_alg.
         bind_run (lift_run (py_nth ol 1)) (\<lambda>alg.
         bind_run (if hyp_time \<noteq> 0
                   then bind_run (get_balance_params env x y bal_alg alg hyp_time metric)
                          (\<lambda>p. done_run (Some p))
                   else done_run None) (\<lambda>balance_params.
         bind_run (lift_run (scale_data env x)) (\<lambda>scaled.
         bind_run (lift_run (make_pipeline bal_alg alg)) (\<lambda>model.
         bind_run (if truthy balance_params then
                     bind_run (lift_run (dict_get (the balance_params)
                                           ''balancing__sampling_strategy'')) (\<lambda>v.
                     bind_run (lift_run (float_of_pval v)) (\<lambda>ss.
                     bind_run (lift_run (get_sampl_strat_for_case ss (np_unique y) bal_alg)) (\<lambda>ss_corr.
                       set_params env model
                         (AList.update ''balancing__sampling_strategy''
                            (pval_of_strat ss_corr) (the balance_params)))))
                   else done_run model) (\<lambda>model.
         bind_run (call_run (EvFit model (fst scaled) y) (e_fit env model (fst scaled) y)) (\<lambda>fitted.
           done_run (fitted, Some (snd scaled)))))))))))"

section \<open>The driver (\<open>choose_and_fit_ilc\<close>) and the wrapper class\<close>

text \<open>
  An attribute value or tuple component. Python attributes are untyped, so the fields of
  the classifier object hold such values, \<open>ONone\<close> before \<open>fit\<close>. The fields are
  named as the attributes are, without the trailing underscore.
\<close>

datatype ('m, 'sc) pyobj =
    ONone
  | OClassifier 'm
  | OStr string
  | OFloat real
  | OScaler 'sc
  | OScores "(string \<times> real list) list"
  | OTimes "(string \<times> time_dict list) list"
  | OInterval real real

record ('m, 'sc) ilc =
  classifer :: "('m, 'sc) pyobj"
  classifer_label :: "('m, 'sc) pyobj"
  split_num :: int
  hyperopt_time :: int
  score :: "('m, 'sc) pyobj"
  scaler :: "('m, 'sc) pyobj"
  evaluated_models_scores :: "('m, 'sc) pyobj"
  evaluated_models_time :: "('m, 'sc) pyobj"
  eval_metric :: string

text \<open>
  \<open>np.mean\<close> of a score series. On an empty series NumPy gives nan with a warning; the
  series of a run with a positive \<open>split_num\<close> are never empty.
\<close>

definition np_mean :: "real list \<Rightarrow> real" where
  "np_mean xs = sum_list xs / real (length xs)"

text \<open>
  \<open>sorted(items, key=...)\<close> is stable; with \<open>reverse=True\<close> the list is reversed, sorted
  and reversed again, which keeps equal keys in their original order as well.
\<close>

definition py_sorted :: "('a \<Rightarrow> real) \<Rightarrow> 'a list \<Rightarrow> 'a list" where
  "py_sorted key_fn xs = sort_key key_fn xs"

definition py_sorted_reverse :: "('a \<Rightarrow> real) \<Rightarrow> 'a list \<Rightarrow> 'a list" where
  "py_sorted_reverse key_fn xs = rev (sort_key key_fn (rev xs))"

text \<open>The dictionary comprehension \<open>{k: v for k, v in items}\<close>.\<close>

definition dict_of_items :: "('k \<times> 'v) list \<Rightarrow> ('k \<times> 'v) list" where
  "dict_of_items items = foldl (\<lambda>d kv. AList.update (fst kv) (snd kv) d) [] items"

text \<open>The statement that sorts a dictionary by value in the direction of the metric.\<close>

definition sort_by_metric :: "string \<Rightarrow> (string \<times> real) list \<Rightarrow> (string \<times> real) list" where
  "sort_by_metric metric d =
     (if metric = ''log_loss'' then dict_of_items (py_sorted snd d)
      else dict_of_items (py_sorted_reverse snd d))"

text \<open>
  \<open>np.percentile(a, q)\<close> with linear interpolation. What NumPy does with an empty array
  depends on its version; the model raises there.
\<close>

definition np_percentile :: "real list \<Rightarrow> real \<Rightarrow> exn + real" where
  "np_percentile a q =
     (if a = [] then Inl IndexError
      else (let s = sort a;
                h = real (length s - 1) * q / 100;
                lo = nat \<lfloor>h\<rfloor>;
                hi = min (lo + 1) (length s - 1)
            in Inr (s ! lo + (h - real lo) * (s ! hi - s ! lo))))"

record drv_state =
  option_list :: "string list"
  score_dict :: "(string \<times> real list) list"
  time_dicts :: "(string \<times> time_dict list) list"
  res_dict :: "(string \<times> real) list"

text \<open>
  One evaluation with its four bookkeeping statements; \<open>option_list[-1]\<close> is the label
  just appended.
\<close>

definition eval_option ::
  "('m, 'sc) env \<Rightarrow> ('m, 'sc) ilc \<Rightarrow> string \<Rightarrow> matrix \<Rightarrow> labels \<Rightarrow> string \<Rightarrow> string \<Rightarrow> string \<Rightarrow>
     drv_state \<Rightarrow> drv_state run" where
  "eval_option env self cv_type x y bal_alg alg label st =
     bind_run (fit_alg env cv_type x y bal_alg alg (hyperopt_time self) (split_num self)
                 (eval_metric self)) (\<lambda>r.
       done_run \<lparr>option_list = option_list st @ [label],
                 score_dict = AList.update label (fst r) (score_dict st),
                 time_dicts = AList.update label (snd r) (time_dicts st),
                 res_dict = AList.update label (np_mean (fst r)) (res_dict st)\<rparr>)"

definition classifier_order :: "string list" where
  "classifier_order = [''catboost'', ''RF'', ''LGBM'', ''XGB'']"

definition resampler_order :: "string list" where
  "resampler_order = [''RandomOverSampler'', ''SMOTE'', ''RandomUnderSampler'', ''ADASYN'']"

text \<open>The two nested loops and the evaluation of AutoBalanceBoost that follows them.\<close>

definition eval_all ::
  "('m, 'sc) env \<Rightarrow> ('m, 'sc) ilc \<Rightarrow> string \<Rightarrow> matrix \<Rightarrow> labels \<Rightarrow> drv_state run" where
  "eval_all env self cv_type x y =
     bind_run (for_run (\<lambda>alg. for_run (\<lambda>bal_alg.
                  eval_option env self cv_type x y bal_alg alg (bal_alg @ ''+'' @ alg))
                  resampler_order)
                 classifier_order
                 \<lparr>option_list = [], score_dict = [], time_dicts = [], res_dict = []\<rparr>)
       (eval_option env self cv_type x y [] ''AutoBalanceBoost'' ''AutoBalanceBoost'')"

text \<open>The returned tuple is a list of its seven components.\<close>

definition choose_and_fit_ilc ::
  "('m, 'sc) env \<Rightarrow> ('m, 'sc) ilc \<Rightarrow> matrix \<Rightarrow> labels \<Rightarrow> ('m, 'sc) pyobj list run" where
  "choose_and_fit_ilc env self x y =
     (let cv_type = get_cv_type (split_num self) in
      bind_run (eval_all env self cv_type x y) (\<lambda>st.
        (let res_dict = sort_by_metric (eval_metric self) (res_dict st) in
         bind_run (lift_run (py_nth (map fst res_dict) 0)) (\<lambda>option_label.
         bind_run (lift_run (py_nth (map snd res_dict) 0)) (\<lambda>score.
         bind_run (fit_res_model env option_label x y (hyperopt_time self) (eval_metric self))
           (\<lambda>fitted.
         bind_run (lift_run (dict_get (score_dict st) option_label)) (\<lambda>series.
         bind_run (lift_run (np_percentile series (5 / 2))) (\<lambda>lo.
         bind_run (lift_run (np_percentile series (195 / 2))) (\<lambda>hi.
           done_run [OClassifier (fst fitted), OStr option_label, OFloat score,
                     (case snd fitted of None \<Rightarrow> ONone | Some sc \<Rightarrow> OScaler sc),
                     OScores (score_dict st), OTimes (time_dicts st),
                     OInterval lo hi])))))))))"

text \<open>
  Assigning a tuple to \<open>n\<close> targets: the length is checked before any target is assigned.
\<close>

definition unpack :: "nat \<Rightarrow> 'a list \<Rightarrow> exn + 'a list" where
  "unpack n t = (if length t = n then Inr t else Inl ValueError)"

text \<open>
  \<open>fit\<close>. The three \<open>print\<close> calls only need the label to be a string and the score a
  number; \<open>check_x_y\<close> is the validation helper of the package.
\<close>

definition fit ::
  "('m, 'sc) env \<Rightarrow> ('m, 'sc) ilc \<Rightarrow> matrix \<Rightarrow> labels \<Rightarrow> ('m, 'sc) ilc run" where
  "fit env self X y =
     bind_run (lift_run (case e_check_x_y env X y of Some e \<Rightarrow> Inl e | None \<Rightarrow> Inr ())) (\<lambda>u.
     bind_run (choose_and_fit_ilc env self X y) (\<lambda>result.
     bind_run (lift_run (unpack 6 result)) (\<lambda>t.
       (let self = self\<lparr>classifer := t ! 0, classifer_label := t ! 1, score := t ! 2,
                         scaler := t ! 3, evaluated_models_scores := t ! 4,
                         evaluated_models_time := t ! 5\<rparr>
        in bind_run (lift_run (case classifer_label self of OStr l \<Rightarrow> Inr () | _ \<Rightarrow> Inl TypeError)) (\<lambda>u.
           bind_run (lift_run (case score self of OFloat v \<Rightarrow> Inr () | _ \<Rightarrow> Inl TypeError)) (\<lambda>u.
             done_run self))))))"

section \<open>The leaderboard (\<open>calc_leaderboard\<close>)\<close>

text \<open>\<open>rankdata(row, method='dense')\<close>: one plus the number of distinct smaller values.\<close>

definition dense_rank :: "real list \<Rightarrow> nat list" where
  "dense_rank row = map (\<lambda>v. length (remdups (filter (\<lambda>w. w \<le> v) row))) row"

text \<open>
  An elementwise operation on two one-dimensional arrays, with NumPy's broadcasting of a
  one-element array.
\<close>

definition np_binop :: "(real \<Rightarrow> real \<Rightarrow> real) \<Rightarrow> real list \<Rightarrow> real list \<Rightarrow> exn + real list" where
  "np_binop f a b =
     (if length a = length b then Inr (map2 f a b)
      else if length a = 1 then Inr (map (f (hd a)) b)
      else if length b = 1 then Inr (map (\<lambda>u. f u (hd b)) a)
      else Inl ValueError)"

text \<open>
  \<open>np.array(rows)\<close> for a list of rows: rows of unequal length are rejected, and no rows
  give a one-dimensional empty array, which has no columns.
\<close>

definition np_array2 :: "'a list list \<Rightarrow> exn + 'a list list" where
  "np_array2 rows =
     (if rows = [] then Inr []
      else if list_all (\<lambda>r. length r = length (hd rows)) rows then Inr rows
      else Inl ValueError)"

text \<open>\<open>model_rank[:, i]\<close>.\<close>

definition np_column :: "'a list list \<Rightarrow> nat \<Rightarrow> exn + 'a list" where
  "np_column rows i =
     (if rows = [] then Inl IndexError
      else for_each (\<lambda>r col. bind_res (py_nth r i) (\<lambda>v. Inr (col @ [v]))) rows [])"

text \<open>The first loop: the means and the per-fold lists of signed scores.\<close>

definition rank_fill ::
  "string \<Rightarrow> nat \<times> real \<Rightarrow> real list list \<Rightarrow> exn + real list list" where
  "rank_fill metric iv sub_rank_list =
     (if fst iv < length sub_rank_list
      then Inr (sub_rank_list[fst iv := sub_rank_list ! fst iv @
                  [if metric = ''log_loss'' then snd iv else - snd iv]])
      else Inl IndexError)"

definition mean_body ::
  "string \<Rightarrow> (string \<times> real list) list \<Rightarrow> string \<Rightarrow> (string \<times> real) list \<times> real list list \<Rightarrow>
     exn + (string \<times> real) list \<times> real list list" where
  "mean_body metric scores el st =
     bind_res (dict_get scores el) (\<lambda>series.
     bind_res (for_each (rank_fill metric) (enumerate_py series) (snd st)) (\<lambda>sub_rank_list.
       Inr (AList.update el (np_mean series) (fst st), sub_rank_list)))"

record board_state =
  rank_dict :: "(string \<times> real) list"
  leader_share :: "(string \<times> real) list"
  diff_dict :: "(string \<times> real) list"

text \<open>The second loop, over \<open>enumerate(keys)\<close>.\<close>

definition board_body ::
  "(string \<times> real list) list \<Rightarrow> string \<Rightarrow> nat list list \<Rightarrow> nat \<times> string \<Rightarrow> board_state \<Rightarrow>
     exn + board_state" where
  "board_body scores leader model_rank iv st =
     bind_res (np_column model_rank (fst iv)) (\<lambda>col.
       (let st = st\<lparr>rank_dict := AList.update (snd iv) (np_mean (map real col)) (rank_dict st),
                    leader_share := AList.update (snd iv)
                       (real (length (filter (\<lambda>r. r = 1) col)) / real (length model_rank) * 100)
                       (leader_share st)\<rparr>
        in if snd iv \<noteq> leader then
             bind_res (dict_get scores (snd iv)) (\<lambda>own.
             bind_res (dict_get scores leader) (\<lambda>lead.
             bind_res (np_binop (\<lambda>a b. a - b) own lead) (\<lambda>d.
             bind_res (np_binop (\<lambda>a b. a / b) d lead) (\<lambda>q.
               Inr (st\<lparr>diff_dict := AList.update (snd iv) (np_mean (map (\<lambda>v. v * 100) q))
                                        (diff_dict st)\<rparr>)))))
           else Inr st))"

record leaderboard =
  lb_mean_score :: "(string \<times> real) list"
  lb_mean_rank :: "(string \<times> real) list"
  lb_first_place_share :: "(string \<times> real) list"
  lb_diff_with_leader :: "(string \<times> real) list"

definition calc_leaderboard :: "('m, 'sc) ilc \<Rightarrow> exn + leaderboard" where
  "calc_leaderboard self =
     bind_res (case evaluated_models_scores self of OScores d \<Rightarrow> Inr d | _ \<Rightarrow> Inl AttributeError)
       (\<lambda>scores.
     bind_res (for_each (mean_body (eval_metric self) scores) (map fst scores)
                 ([], replicate (nat (split_num self)) [])) (\<lambda>filled.
       (let mean_dict = sort_by_metric (eval_metric self) (fst filled) in
        bind_res (py_nth (map fst mean_dict) 0) (\<lambda>leader.
        bind_res (np_array2 (map dense_rank (snd filled))) (\<lambda>model_rank.
        bind_res (for_each (board_body scores leader model_rank)
                    (enumerate_py (map fst scores))
                    \<lparr>rank_dict = [], leader_share = [], diff_dict = []\<rparr>) (\<lambda>st.
          Inr \<lparr>lb_mean_score = mean_dict,
                lb_mean_rank = dict_of_items (py_sorted snd (rank_dict st)),
                lb_first_place_share = dict_of_items (py_sorted_reverse snd (leader_share st)),
                lb_diff_with_leader = dict_of_items (py_sorted_reverse snd (diff_dict st))\<rparr>))))))"

section \<open>The correction in the words of the specification\<close>



section \<open>The candidates in the words of the specification\<close>





section \<open>A small environment for instantiating the theorems\<close>







section \<open>Basic facts\<close>

lemma bind_res_simps [simp]:
  "bind_res (Inl e) f = Inl e" "bind_res (Inr a) f = f a"
  by (simp_all add: bind_res_def)

lemma snd_bind_run_Inr:
  "snd (bind_run m f) = Inr b \<longleftrightarrow> (\<exists>a. snd m = Inr a \<and> snd (f a) = Inr b)"
  by (cases "snd m") (simp_all add: bind_run_def)

lemma bind_run_post:
  assumes "snd (bind_run m f) = Inr b"
  obtains a where "snd m = Inr a" "snd (f a) = Inr b"
  using assms by (auto simp: snd_bind_run_Inr)

lemma done_run_simps [simp]: "snd (done_run a) = Inr a" "fst (done_run a) = []"
  by (simp_all add: done_run_def)

lemma lift_run_simps [simp]: "snd (lift_run r) = r" "fst (lift_run r) = []"
  by (simp_all add: lift_run_def)

lemma call_run_simps [simp]: "snd (call_run ev r) = r" "fst (call_run ev r) = [ev]"
  by (simp_all add: call_run_def)


lemma nth_first_index: "v \<in> set xs \<Longrightarrow> xs ! first_index v xs = v"
  by (induction xs) auto


lemma py_max_Fin: "py_max (Fin a) (Fin b) = Fin (max a b)"
  by (simp add: py_max_def max_def)


section \<open>The sampling-strategy correction\<close>

text \<open>
  Claim C9. With exactly two classes the result of the correction is the same for every
  resampler label: the binary branch never looks at \<open>balance_method\<close>.
\<close>

theorem binary_correction_ignores_method:
  "length (fst count_class) = 2 \<Longrightarrow>
   get_sampl_strat_for_case ss count_class bm1 = get_sampl_strat_for_case ss count_class bm2"
  by (simp add: get_sampl_strat_for_case_def)

theorem binary_correction_ignores_method_witness:
  "get_sampl_strat_for_case (Fin (1 / 2)) ([0, 1], [8, 2]) ''SMOTE''
     = get_sampl_strat_for_case (Fin (1 / 2)) ([0, 1], [8, 2]) ''RandomUnderSampler''"
  using binary_correction_ignores_method
    [of "([0, 1], [8, 2])" "Fin (1 / 2)" "''SMOTE''" "''RandomUnderSampler''"]
  by simp

text \<open>
  Claim C3. With exactly two classes, positive counts and a raw ratio in \<open>[0, 1]\<close>, the
  correction returns the larger of minority/majority and the raw ratio, which is at least
  the natural ratio and at most 1.
\<close>

theorem binary_correction_is_max:
  assumes "length cls = 2" "cnt \<noteq> []" "\<forall>c\<in>set cnt. 0 < c" "0 \<le> ss" "ss \<le> 1"
  shows "get_sampl_strat_for_case (Fin ss) (cls, cnt) bm =
           Inr (Ratio (Fin (max (real_of_int (Min (set cnt)) / real_of_int (Max (set cnt))) ss)))
         \<and> real_of_int (Min (set cnt)) / real_of_int (Max (set cnt))
             \<le> max (real_of_int (Min (set cnt)) / real_of_int (Max (set cnt))) ss
         \<and> max (real_of_int (Min (set cnt)) / real_of_int (Max (set cnt))) ss \<le> 1"
proof -
  have mn: "Min (set cnt) \<in> set cnt" and mx: "Max (set cnt) \<in> set cnt"
    using assms(2) by (simp_all add: Min_in Max_in)
  have pos: "0 < Max (set cnt)" using mx assms(3) by blast
  have le: "Min (set cnt) \<le> Max (set cnt)" using assms(2) by (simp add: mx)
  have r1: "real_of_int (Min (set cnt)) / real_of_int (Max (set cnt)) \<le> 1"
    using pos le by simp
  have "get_sampl_strat_for_case (Fin ss) (cls, cnt) bm =
     Inr (Ratio (py_max (Fin (real_of_int (Min (set cnt)) / real_of_int (Max (set cnt)))) (Fin ss)))"
    using assms(1,2) pos
    by (simp add: get_sampl_strat_for_case_def np_argmin_def np_argmax_def
        nth_first_index mn mx)
  then show ?thesis using r1 assms(5) by (simp add: py_max_Fin)
qed

theorem binary_correction_is_max_witness:
  "get_sampl_strat_for_case (Fin (1 / 2)) ([0, 1], [8, 2]) ''SMOTE'' = Inr (Ratio (Fin (1 / 2)))"
  using binary_correction_is_max [of "[0, 1]" "[8, 2]" "1 / 2" "''SMOTE''"] by simp








section \<open>Stable sorting and the leader\<close>












section \<open>The driver\<close>


















lemma bind_run_pair [simp]:
  "bind_run (l, Inr a) f = (case f a of (l', r) \<Rightarrow> (l @ l', r))"
  "bind_run (l, Inl e) f = (l, Inl e)"
  by (simp_all add: bind_run_def split: prod.splits)














section \<open>The wrapper class\<close>

lemma choose_and_fit_ilc_length:
  "snd (choose_and_fit_ilc env self x y) = Inr t \<Longrightarrow> length t = 7"
  unfolding choose_and_fit_ilc_def Let_def
  by (elim bind_run_post) auto

text \<open>
  Claim C1 does not hold of the code: \<open>fit\<close> never returns. Whenever validation and model
  selection succeed, the seven-component result of \<open>choose_and_fit_ilc\<close> is assigned to
  six targets, which raises \<open>ValueError\<close> before any attribute is set.
\<close>

theorem fit_always_raises: "\<exists>e. snd (fit env self X y) = Inl e"
proof (cases "snd (fit env self X y)")
  case (Inl e)
  then show ?thesis by blast
next
  case (Inr s)
  then obtain t where "snd (choose_and_fit_ilc env self X y) = Inr t" "unpack 6 t = Inr t"
    unfolding fit_def Let_def
    by (elim bind_run_post) (auto simp: unpack_def split: if_splits)
  then show ?thesis
    using choose_and_fit_ilc_length [of env self X y t] by (simp add: unpack_def split: if_splits)
qed


end
